theory Spec2Isabelle
  imports Main "HOL-Library.Sublist"
begin

section \<open>Go strings\<close>

text \<open>
  A Go \<^verbatim>\<open>string\<close> is a sequence of bytes; it is modelled as a \<^typ>\<open>string\<close>, a list of
  8-bit characters. The separators used by the program ("," and "-") are single bytes, so
  splitting and joining are written for a one-character separator.
\<close>

text \<open>
  \<^verbatim>\<open>strings.Split(s, sep)\<close> for a one-byte \<^verbatim>\<open>sep\<close>: the pieces of \<^verbatim>\<open>s\<close> between the
  occurrences of \<^verbatim>\<open>sep\<close>, empty pieces kept; one more piece than there are separators,
  so the empty string gives one empty piece.
\<close>

fun Split :: "string \<Rightarrow> char \<Rightarrow> string list" where
  "Split [] sep = [[]]"
| "Split (c # cs) sep =
     (if c = sep then [] # Split cs sep
      else (case Split cs sep of [] \<Rightarrow> [[c]] | p # ps \<Rightarrow> (c # p) # ps))"

text \<open>
  \<^verbatim>\<open>strings.Join(elems, sep)\<close> for a one-byte \<^verbatim>\<open>sep\<close>: the elements with the separator
  between neighbours; the empty string for no element.
\<close>

fun Join :: "string list \<Rightarrow> char \<Rightarrow> string" where
  "Join [] sep = []"
| "Join [p] sep = p"
| "Join (p # q # ps) sep = p @ sep # Join (q # ps) sep"

section \<open>Package util\<close>

text \<open>
  Modelled from the spec: \<^verbatim>\<open>util.StrContains\<close>, whose source file is not among the
  sources. The spec describes its use as a set-membership check of a string in a list of
  strings; it is written as the loop over the slice that compares each element with
  \<^verbatim>\<open>==\<close>.
\<close>

fun StrContains :: "string list \<Rightarrow> string \<Rightarrow> bool" where
  "StrContains [] str = False"
| "StrContains (v # vs) str = (if v = str then True else StrContains vs str)"

section \<open>Package policy: plan policies\<close>

text \<open>
  Go's \<^verbatim>\<open>int\<close> and \<^verbatim>\<open>time.Duration\<close> (an \<^verbatim>\<open>int64\<close> of nanoseconds) are modelled as
  \<^typ>\<open>int\<close>: the table below only holds constants, the largest being
  \<open>28 * 24 * 3600 * 10^9 < 2^63\<close>, and no arithmetic is done on them at run time.
\<close>

definition Nanosecond :: int where "Nanosecond = 1"
definition Microsecond :: int where "Microsecond = 1000 * Nanosecond"
definition Millisecond :: int where "Millisecond = 1000 * Microsecond"
definition Second :: int where "Second = 1000 * Millisecond"
definition Minute :: int where "Minute = 60 * Second"
definition Hour :: int where "Hour = 60 * Minute"

definition FreeTier :: string where "FreeTier = ''free''"
definition StarterTier :: string where "StarterTier = ''starter''"
definition ProductionTier :: string where "ProductionTier = ''production''"
definition DedicatedTier :: string where "DedicatedTier = ''dedicated''"
definition PrivateTier :: string where "PrivateTier = ''private''"

definition FeatureAllEnabled :: string where "FeatureAllEnabled = ''all-enabled''"
definition FeatureAllDisabled :: string where "FeatureAllDisabled = ''all-disabled''"
definition BrokerMetrics :: string where "BrokerMetrics = ''broker-metrics''"

record PlanPolicy =
  Name :: string
  NumOfTopics :: int
  NumOfNamespaces :: int
  MessageHourRetention :: int
  MessageRetention :: int
  NumOfProducers :: int
  NumOfConsumers :: int
  Functions :: int
  FeatureCodes :: string

record PlanPolicies =
  FreePlan :: PlanPolicy
  StarterPlan :: PlanPolicy
  ProductionPlan :: PlanPolicy
  DedicatedPlan :: PlanPolicy
  PrivatePlan :: PlanPolicy

definition TenantPlanPolicies :: PlanPolicies where
  "TenantPlanPolicies = \<lparr>
     FreePlan = \<lparr>
       Name = FreeTier,
       NumOfTopics = 5,
       NumOfNamespaces = 1,
       MessageHourRetention = 2 * 24,
       MessageRetention = 2 * 24 * Hour,
       NumOfProducers = 3,
       NumOfConsumers = 5,
       Functions = 1,
       FeatureCodes = FeatureAllDisabled \<rparr>,
     StarterPlan = \<lparr>
       Name = StarterTier,
       NumOfTopics = 20,
       NumOfNamespaces = 2,
       MessageHourRetention = 7 * 24,
       MessageRetention = 7 * 24 * Hour,
       NumOfProducers = 30,
       NumOfConsumers = 50,
       Functions = 10,
       FeatureCodes = FeatureAllDisabled \<rparr>,
     ProductionPlan = \<lparr>
       Name = ProductionTier,
       NumOfTopics = 100,
       NumOfNamespaces = 6,
       MessageHourRetention = 14 * 24,
       MessageRetention = 14 * 24 * Hour,
       NumOfProducers = 60,
       NumOfConsumers = 100,
       Functions = 20,
       FeatureCodes = FeatureAllDisabled \<rparr>,
     DedicatedPlan = \<lparr>
       Name = DedicatedTier,
       NumOfTopics = 1000,
       NumOfNamespaces = 500,
       MessageHourRetention = 21 * 24,
       MessageRetention = 21 * 24 * Hour,
       NumOfProducers = 300,
       NumOfConsumers = 500,
       Functions = 30,
       FeatureCodes = FeatureAllDisabled \<rparr>,
     PrivatePlan = \<lparr>
       Name = PrivateTier,
       NumOfTopics = 5000,
       NumOfNamespaces = 1000,
       MessageHourRetention = 28 * 24,
       MessageRetention = 28 * 24 * Hour,
       NumOfProducers = - 1,
       NumOfConsumers = - 1,
       Functions = - 1,
       FeatureCodes = FeatureAllEnabled \<rparr> \<rparr>"

text \<open>
  \<^verbatim>\<open>getPlanPolicy\<close> returns a pointer into the table or \<^verbatim>\<open>nil\<close>: \<open>Some\<close> of the
  entry pointed to, or \<open>None\<close>. The \<^verbatim>\<open>switch\<close> tries its cases in order.
\<close>

definition getPlanPolicy :: "string \<Rightarrow> PlanPolicy option" where
  "getPlanPolicy plan =
     (if plan = FreeTier then Some (FreePlan TenantPlanPolicies)
      else if plan = StarterTier then Some (StarterPlan TenantPlanPolicies)
      else if plan = ProductionTier then Some (ProductionPlan TenantPlanPolicies)
      else if plan = DedicatedTier then Some (DedicatedPlan TenantPlanPolicies)
      else if plan = PrivateTier then Some (PrivatePlan TenantPlanPolicies)
      else None)"

text \<open>
  The tiers in the order free, starter, production, dedicated, private, and the
  comparison of two quotas in which \<open>-1\<close> stands for "unlimited", above every number.
\<close>

definition tier_order :: "PlanPolicy list" where
  "tier_order =
     [FreePlan TenantPlanPolicies, StarterPlan TenantPlanPolicies,
      ProductionPlan TenantPlanPolicies, DedicatedPlan TenantPlanPolicies,
      PrivatePlan TenantPlanPolicies]"

definition quota_le :: "int \<Rightarrow> int \<Rightarrow> bool" where
  "quota_le a b = (if b = - 1 then True else if a = - 1 then False else a \<le> b)"

section \<open>Package policy: feature codes and the admin API\<close>

text \<open>
  \<^verbatim>\<open>IsFeatureSupported\<close> splits the feature codes at the commas and looks the feature up
  among the pieces.
\<close>

definition IsFeatureSupported :: "string \<Rightarrow> string \<Rightarrow> bool" where
  "IsFeatureSupported feature featureCodes =
     StrContains (Split featureCodes (CHR '','')) feature"

text \<open>
  The spec's notion of a comma-separated token of a string: a comma-free piece that is
  bounded on each side by a comma or by the end of the string.
\<close>

definition comma_token :: "string \<Rightarrow> string \<Rightarrow> bool" where
  "comma_token tok s \<longleftrightarrow>
     CHR '','' \<notin> set tok \<and>
     (\<exists>pre post. s = pre @ tok @ post \<and>
        (pre = [] \<or> last pre = CHR '','') \<and> (post = [] \<or> hd post = CHR '',''))"

text \<open>
  Of \<^verbatim>\<open>http.Request\<close> the evaluators read the field \<^verbatim>\<open>Method\<close> only. They take a
  pointer to the request: \<open>None\<close> is \<^verbatim>\<open>nil\<close>, and reading \<^verbatim>\<open>r.Method\<close> through it
  panics. Go's \<^verbatim>\<open>||\<close> evaluates its right operand only when the left one is false, so the
  pointer is not read for a superuser. \<^verbatim>\<open>util.SuperRoles\<close>, a variable of package util
  set from the configuration, is a parameter.
\<close>

record Request =
  Method :: string

definition MethodGet :: string where "MethodGet = ''GET''"

datatype panic = NilPointerDereference

definition EvalNamespaceAdminAPI :: "string list \<Rightarrow> Request option \<Rightarrow> string \<Rightarrow> panic + bool" where
  "EvalNamespaceAdminAPI SuperRoles r subject =
     (if StrContains SuperRoles subject then Inr True
      else (case r of
              None \<Rightarrow> Inl NilPointerDereference
            | Some req \<Rightarrow> Inr (Method req = MethodGet)))"

definition EvalTopicAdminAPI :: "string list \<Rightarrow> Request option \<Rightarrow> string \<Rightarrow> panic + bool" where
  "EvalTopicAdminAPI SuperRoles r subject =
     (if StrContains SuperRoles subject then Inr True
      else (case r of
              None \<Rightarrow> Inl NilPointerDereference
            | Some req \<Rightarrow> Inr (Method req = MethodGet)))"

section \<open>Package policy: the tenant policy cache\<close>

text \<open>
  \<^verbatim>\<open>TenantPolicyMap\<close> is a cache of the library \<^verbatim>\<open>github.com/patrickmn/go-cache\<close>, made by
  \<^verbatim>\<open>cache.New(15*time.Minute, 3*time.Hour)\<close>. The library keeps a map from keys to items,
  an item being the stored object and the time it expires (nanoseconds since the epoch,
  \<open>0\<close> or less for "never"). Its operations are written here as the library documents
  them, with the clock reading \<open>now\<close> an explicit argument and the cache passed and
  returned:
  \<^item> \<^verbatim>\<open>get\<close>/\<^verbatim>\<open>Get\<close>: the object under the key unless there is none or the item has
    expired (\<^verbatim>\<open>item.Expiration > 0\<close> and \<^verbatim>\<open>now > item.Expiration\<close>);
  \<^item> \<^verbatim>\<open>set\<close>: stores the item, replacing the duration \<^verbatim>\<open>DefaultExpiration\<close> by the
    cache's default and writing the expiry \<^verbatim>\<open>now + d\<close> when \<^verbatim>\<open>d > 0\<close>;
  \<^item> \<^verbatim>\<open>Add\<close>: "Add an item to the cache only if an item doesn't already exist for the
    given key, or if the existing item has expired. Returns an error otherwise."
  The janitor that runs every three hours deletes expired items only, which no read
  distinguishes from leaving them, so it is not modelled. A call reads the clock once.
  Times are unbounded integers: the \<^verbatim>\<open>int64\<close> clock does not overflow before the year
  2262.
\<close>

record Item =
  Object :: PlanPolicy
  Expiration :: int

record Cache =
  defaultExpiration :: int
  items :: "string \<rightharpoonup> Item"

definition DefaultExpiration :: int where "DefaultExpiration = 0"

definition cache_New :: "int \<Rightarrow> Cache" where
  "cache_New de =
     \<lparr>defaultExpiration = (if de = 0 then - 1 else de), items = Map.empty\<rparr>"

definition cache_get :: "Cache \<Rightarrow> int \<Rightarrow> string \<Rightarrow> PlanPolicy option" where
  "cache_get c now k =
     (case items c k of
        None \<Rightarrow> None
      | Some item \<Rightarrow>
          if Expiration item > 0 \<and> now > Expiration item then None
          else Some (Object item))"

definition cache_Get :: "Cache \<Rightarrow> int \<Rightarrow> string \<Rightarrow> PlanPolicy option" where
  "cache_Get c now k = cache_get c now k"

definition cache_set :: "Cache \<Rightarrow> int \<Rightarrow> string \<Rightarrow> PlanPolicy \<Rightarrow> int \<Rightarrow> Cache" where
  "cache_set c now k x d =
     (let d' = (if d = DefaultExpiration then defaultExpiration c else d);
          e = (if d' > 0 then now + d' else 0)
      in c\<lparr>items := (items c)(k \<mapsto> \<lparr>Object = x, Expiration = e\<rparr>)\<rparr>)"

text \<open>
  \<^verbatim>\<open>Set\<close>, the library's other way to store: "Add an item to the cache, replacing any
  existing item." \<^verbatim>\<open>UpdateCache\<close> does not call it.
\<close>

definition cache_Set :: "Cache \<Rightarrow> int \<Rightarrow> string \<Rightarrow> PlanPolicy \<Rightarrow> int \<Rightarrow> Cache" where
  "cache_Set c now k x d = cache_set c now k x d"

datatype cache_error = AlreadyExists string

definition cache_Add :: "Cache \<Rightarrow> int \<Rightarrow> string \<Rightarrow> PlanPolicy \<Rightarrow> int \<Rightarrow> Cache \<times> cache_error option" where
  "cache_Add c now k x d =
     (case cache_get c now k of
        Some found \<Rightarrow> (c, Some (AlreadyExists k))
      | None \<Rightarrow> (cache_set c now k x d, None))"

definition TenantPolicyMap :: Cache where
  "TenantPolicyMap = cache_New (15 * Minute)"

text \<open>
  \<^verbatim>\<open>UpdateCache\<close> calls \<^verbatim>\<open>Add\<close> on the global cache and drops the error it returns.
\<close>

definition UpdateCache :: "Cache \<Rightarrow> int \<Rightarrow> string \<Rightarrow> PlanPolicy \<Rightarrow> Cache" where
  "UpdateCache c now tenant plan = fst (cache_Add c now tenant plan DefaultExpiration)"

section \<open>Package route: subjects and tenants\<close>

text \<open>
  Modelled from the spec: \<^verbatim>\<open>ExtractTenant\<close> of package route, whose source file is not
  among the sources (its test \<^verbatim>\<open>TestSubjectMatch\<close> is). The spec's algorithm: a subject
  with no hyphen is returned unchanged, twice. Otherwise the subject is split at the
  hyphens, the final token is dropped and the rest rejoined with hyphens is the base; when
  the last token of the base is exactly \<^verbatim>\<open>client\<close>, the immediate tenant is the base and the
  root tenant is the base without that last token, and otherwise both are the base.
  Tokens are the pieces between hyphens as \<^verbatim>\<open>strings.Split\<close> gives them. The spec
  calls them non-empty, which they are unless the subject starts or ends with a hyphen or
  has two in a row; in such a subject the empty pieces are kept, so that the base is
  always the text before the last hyphen.
\<close>

definition hyphen :: char where "hyphen = CHR ''-''"

definition ExtractTenant :: "string \<Rightarrow> string \<times> string" where
  "ExtractTenant subject =
     (if hyphen \<notin> set subject then (subject, subject)
      else
        (let tokens = Split subject hyphen;
             baseTokens = butlast tokens;
             base = Join baseTokens hyphen
         in if last baseTokens = ''client''
            then (base, Join (butlast baseTokens) hyphen)
            else (base, base)))"

text \<open>
  Modelled from the spec: \<^verbatim>\<open>VerifySubject\<close> of package route, absent like
  \<^verbatim>\<open>ExtractTenant\<close>. It computes the two tenants of the subject and compares the tenant
  asked for with each.
\<close>

definition VerifySubject :: "string \<Rightarrow> string \<Rightarrow> bool" where
  "VerifySubject tenant subject =
     (case ExtractTenant subject of
        (immediate, root) \<Rightarrow> tenant = immediate \<or> tenant = root)"

section \<open>Splitting and joining\<close>

lemma Split_not_Nil: "Split s c \<noteq> []"
  by (induction s) (auto split: list.splits)

lemma Split_no_sep: "c \<notin> set s \<Longrightarrow> Split s c = [s]"
  by (induction s) auto

lemma Split_append_sep: "Split (a @ c # b) c = Split a c @ Split b c"
  by (induction a) (auto simp: Split_not_Nil split: list.splits)

lemma Split_snoc_token: "c \<notin> set q \<Longrightarrow> Split (a @ c # q) c = Split a c @ [q]"
  by (simp add: Split_append_sep Split_no_sep)

lemma Split_sep_free: "t \<in> set (Split s c) \<Longrightarrow> c \<notin> set t"
  by (induction s arbitrary: t) (auto split: list.splits if_splits)

lemma Join_Cons: "ps \<noteq> [] \<Longrightarrow> Join (p # ps) c = p @ c # Join ps c"
  by (cases ps) auto

lemma Join_push: "Join ((a # p) # ps) c = a # Join (p # ps) c"
  by (cases ps) auto

lemma Join_append:
  "ps \<noteq> [] \<Longrightarrow> qs \<noteq> [] \<Longrightarrow> Join (ps @ qs) c = Join ps c @ c # Join qs c"
  by (induction ps c rule: Join.induct) (auto simp: Join_Cons)

text \<open>Joining the pieces of a string with the separator gives the string back.\<close>

lemma Join_Split: "Join (Split s c) c = s"
  by (induction s) (auto simp: Join_Cons Join_push Split_not_Nil split: list.splits)

lemma StrContains_iff: "StrContains strs str \<longleftrightarrow> str \<in> set strs"
  by (induction strs) auto

text \<open>
  The pieces that \<open>Split\<close> returns are the separator-free stretches of the string bounded
  by separators or the ends of the string.
\<close>

lemma mem_Split_imp_token:
  assumes "tok \<in> set (Split s c)"
  shows "\<exists>pre post. s = pre @ tok @ post \<and>
           (pre = [] \<or> last pre = c) \<and> (post = [] \<or> hd post = c)"
proof -
  from assms obtain us vs where sp: "Split s c = us @ tok # vs"
    by (auto simp: in_set_conv_decomp)
  have s: "s = Join (us @ tok # vs) c"
    using Join_Split [of s c] sp by simp
  define pre where "pre = (if us = [] then [] else Join us c @ [c])"
  define post where "post = (if vs = [] then [] else c # Join vs c)"
  have "Join (us @ tok # vs) c = pre @ tok @ post"
    by (cases "us = []"; cases "vs = []") (simp_all add: pre_def post_def Join_append Join_Cons)
  with s have "s = pre @ tok @ post" by simp
  moreover have "pre = [] \<or> last pre = c" by (simp add: pre_def)
  moreover have "post = [] \<or> hd post = c" by (simp add: post_def)
  ultimately show ?thesis by blast
qed

lemma token_imp_mem_Split:
  assumes "c \<notin> set tok" and "s = pre @ tok @ post"
    and "pre = [] \<or> last pre = c" and "post = [] \<or> hd post = c"
  shows "tok \<in> set (Split s c)"
proof -
  have post: "tok \<in> set (Split (tok @ post) c)"
  proof (cases post)
    case Nil
    with assms(1) show ?thesis by (simp add: Split_no_sep)
  next
    case (Cons x xs)
    with assms(4) have "post = c # xs" by simp
    with assms(1) show ?thesis by (simp add: Split_append_sep Split_no_sep)
  qed
  show ?thesis
  proof (cases "pre = []")
    case True
    with post assms(2) show ?thesis by simp
  next
    case False
    with assms(3) have "pre = butlast pre @ [c]"
      by (metis append_butlast_last_id)
    then have "s = butlast pre @ c # (tok @ post)"
      using assms(2) by (metis append.assoc append_Cons append_Nil)
    then show ?thesis using post by (simp add: Split_append_sep)
  qed
qed

lemma mem_Split_iff_token: "tok \<in> set (Split s (CHR '','')) \<longleftrightarrow> comma_token tok s"
  unfolding comma_token_def
  using mem_Split_imp_token [of tok s "CHR '',''"] token_imp_mem_Split [of "CHR '',''" tok s]
    Split_sep_free [of tok s "CHR '',''"]
  by blast

section \<open>The plan table\<close>

lemmas tier_names =
  FreeTier_def StarterTier_def ProductionTier_def DedicatedTier_def PrivateTier_def

lemmas durations =
  Hour_def Minute_def Second_def Millisecond_def Microsecond_def Nanosecond_def

text \<open>
  C6. \<^verbatim>\<open>getPlanPolicy\<close> returns a policy exactly for the five tier names, and the policy
  it returns carries that name; every other string gives \<^verbatim>\<open>nil\<close>, never a default tier.
\<close>

theorem getPlanPolicy_closed_set:
  "map_option Name (getPlanPolicy plan) =
     (if plan \<in> {''free'', ''starter'', ''production'', ''dedicated'', ''private''}
      then Some plan else None)"
  by (simp add: getPlanPolicy_def TenantPlanPolicies_def tier_names)

text \<open>
  C7. Along the tier order every quota field is non-decreasing when \<open>-1\<close> is read as
  unlimited, and \<open>-1\<close> occurs only in the private tier, there only as the number of
  producers, consumers and functions.
\<close>

theorem tier_quotas_monotone:
  "sorted_wrt quota_le (map NumOfTopics tier_order) \<and>
   sorted_wrt quota_le (map NumOfNamespaces tier_order) \<and>
   sorted_wrt quota_le (map MessageRetention tier_order) \<and>
   sorted_wrt quota_le (map MessageHourRetention tier_order) \<and>
   sorted_wrt quota_le (map NumOfProducers tier_order) \<and>
   sorted_wrt quota_le (map NumOfConsumers tier_order) \<and>
   sorted_wrt quota_le (map Functions tier_order) \<and>
   - 1 \<notin> set (concat (map (\<lambda>p. [NumOfTopics p, NumOfNamespaces p, MessageRetention p,
       MessageHourRetention p, NumOfProducers p, NumOfConsumers p, Functions p])
       (butlast tier_order))) \<and>
   - 1 \<notin> set (map (\<lambda>f. f (last tier_order))
       [NumOfTopics, NumOfNamespaces, MessageRetention, MessageHourRetention]) \<and>
   map (\<lambda>f. f (last tier_order)) [NumOfProducers, NumOfConsumers, Functions] = [- 1, - 1, - 1]"
  by (simp add: tier_order_def TenantPlanPolicies_def quota_le_def durations)

section \<open>The admin API and the feature codes\<close>

text \<open>
  C8. For every request and every subject, \<^verbatim>\<open>EvalNamespaceAdminAPI\<close> and
  \<^verbatim>\<open>EvalTopicAdminAPI\<close> return true exactly when the subject is one of the super roles
  or the request's method is GET, and the two evaluators agree on every input (on a
  \<^verbatim>\<open>nil\<close> request too).
\<close>

theorem admin_API_superuser_or_GET:
  "EvalNamespaceAdminAPI SuperRoles (Some req) subject =
     Inr (subject \<in> set SuperRoles \<or> Method req = ''GET'') \<and>
   EvalTopicAdminAPI SuperRoles (Some req) subject =
     Inr (subject \<in> set SuperRoles \<or> Method req = ''GET'') \<and>
   EvalNamespaceAdminAPI SuperRoles r subject = EvalTopicAdminAPI SuperRoles r subject"
  by (simp add: EvalNamespaceAdminAPI_def EvalTopicAdminAPI_def StrContains_iff MethodGet_def)

text \<open>
  C10. \<^verbatim>\<open>IsFeatureSupported\<close> is true exactly when the feature is, character for
  character, one of the comma-separated tokens of the feature codes. The value
  \<^verbatim>\<open>all-enabled\<close> is a token like any other: with the feature codes \<^verbatim>\<open>all-enabled\<close> only
  the feature \<^verbatim>\<open>all-enabled\<close> itself is supported, and \<^verbatim>\<open>broker-metrics\<close> is not.
\<close>

theorem IsFeatureSupported_exact_token:
  "IsFeatureSupported feature featureCodes = comma_token feature featureCodes \<and>
   IsFeatureSupported feature featureCodes = (feature \<in> set (Split featureCodes (CHR '',''))) \<and>
   IsFeatureSupported feature FeatureAllEnabled = (feature = ''all-enabled'') \<and>
   IsFeatureSupported BrokerMetrics FeatureAllEnabled = False"
  by (simp add: IsFeatureSupported_def StrContains_iff mem_Split_iff_token
      FeatureAllEnabled_def BrokerMetrics_def eq_commute)

section \<open>The tenant policy cache\<close>

lemma TenantPolicyMap_default: "defaultExpiration TenantPolicyMap = 15 * Minute"
  by (simp add: TenantPolicyMap_def cache_New_def durations)

lemma UpdateCache_unfold:
  "UpdateCache c now tenant plan =
     (if cache_get c now tenant = None
      then cache_set c now tenant plan DefaultExpiration else c)"
  by (simp add: UpdateCache_def cache_Add_def split: option.splits)

lemma UpdateCache_defaultExpiration:
  "defaultExpiration (UpdateCache c now tenant plan) = defaultExpiration c"
  by (simp add: UpdateCache_unfold cache_set_def Let_def)

lemma cache_set_default:
  "0 < defaultExpiration c \<Longrightarrow>
   cache_set c now k x DefaultExpiration =
     c\<lparr>items := (items c)(k \<mapsto> \<lparr>Object = x, Expiration = now + defaultExpiration c\<rparr>)\<rparr>"
  by (simp add: cache_set_def DefaultExpiration_def Let_def)

text \<open>
  An unexpired entry stops \<^verbatim>\<open>UpdateCache\<close>: the cache, and with it every later read, is
  what it was before the call.
\<close>

lemma UpdateCache_unexpired_unchanged:
  "cache_get c now tenant = Some old \<Longrightarrow> UpdateCache c now tenant plan = c"
  by (simp add: UpdateCache_unfold)

text \<open>
  Storing with the library's \<^verbatim>\<open>Set\<close> in the place of \<^verbatim>\<open>Add\<close> would overwrite whatever
  the cache holds for the tenant: a read within the default window observes the policy
  just written.
\<close>

lemma cache_Set_overwrites:
  assumes "0 < defaultExpiration c" and "now \<le> now'" and "now' \<le> now + defaultExpiration c"
  shows "cache_Get (cache_Set c now tenant plan DefaultExpiration) now' tenant = Some plan"
  using assms by (simp add: cache_Set_def cache_set_default cache_Get_def cache_get_def)

text \<open>
  C5. The claim says that \<^verbatim>\<open>UpdateCache\<close> inserts or overwrites the entry of the tenant
  whether or not an unexpired entry exists, and that a read within the expiration window
  observes the policy just written. The code does not do so. On the empty
  \<^verbatim>\<open>TenantPolicyMap\<close>, the free policy is written for a tenant one hour after the epoch,
  and the private policy for the same tenant one minute later. The second call changes
  nothing: the cache is what the first call left, the entry still expires fifteen minutes
  after the first call, and a read one more minute later observes the free policy, not
  the private one. Only once the entry has expired (a read sixteen minutes after the first
  call misses) does a call of \<^verbatim>\<open>UpdateCache\<close> store the private policy.
\<close>

theorem UpdateCache_keeps_unexpired_entry:
  "UpdateCache
     (UpdateCache TenantPolicyMap Hour ''acme'' (FreePlan TenantPlanPolicies))
     (Hour + Minute) ''acme'' (PrivatePlan TenantPlanPolicies) =
   UpdateCache TenantPolicyMap Hour ''acme'' (FreePlan TenantPlanPolicies) \<and>
   items (UpdateCache
            (UpdateCache TenantPolicyMap Hour ''acme'' (FreePlan TenantPlanPolicies))
            (Hour + Minute) ''acme'' (PrivatePlan TenantPlanPolicies)) ''acme'' =
     Some \<lparr>Object = FreePlan TenantPlanPolicies, Expiration = Hour + 15 * Minute\<rparr> \<and>
   cache_Get
     (UpdateCache
        (UpdateCache TenantPolicyMap Hour ''acme'' (FreePlan TenantPlanPolicies))
        (Hour + Minute) ''acme'' (PrivatePlan TenantPlanPolicies))
     (Hour + 2 * Minute) ''acme'' = Some (FreePlan TenantPlanPolicies) \<and>
   FreePlan TenantPlanPolicies \<noteq> PrivatePlan TenantPlanPolicies \<and>
   cache_Get (UpdateCache TenantPolicyMap Hour ''acme'' (FreePlan TenantPlanPolicies))
     (Hour + 16 * Minute) ''acme'' = None \<and>
   cache_Get
     (UpdateCache
        (UpdateCache TenantPolicyMap Hour ''acme'' (FreePlan TenantPlanPolicies))
        (Hour + 16 * Minute) ''acme'' (PrivatePlan TenantPlanPolicies))
     (Hour + 17 * Minute) ''acme'' = Some (PrivatePlan TenantPlanPolicies)"
  by (simp add: UpdateCache_unfold cache_set_def cache_Get_def cache_get_def
      TenantPolicyMap_def cache_New_def DefaultExpiration_def durations TenantPlanPolicies_def
      tier_names)

section \<open>Subjects and tenants\<close>

text \<open>
  The model of \<^verbatim>\<open>ExtractTenant\<close> and \<^verbatim>\<open>VerifySubject\<close> gives what \<^verbatim>\<open>TestSubjectMatch\<close>
  asserts, line by line.
\<close>

lemma ExtractTenant_test_cases:
  "fst (ExtractTenant ''chris-kafkaesque-io-12345qbc'') =
     snd (ExtractTenant ''chris-kafkaesque-io-12345qbc'')"
  "ExtractTenant ''adminuser'' = (''adminuser'', ''adminuser'')"
  "ExtractTenant ''chris-kafkaesque-io-client-12345qbc'' =
     (''chris-kafkaesque-io-client'', ''chris-kafkaesque-io'')"
  "ExtractTenant ''chris-kafkaesque-io-client-client-12345qbc'' =
     (''chris-kafkaesque-io-client-client'', ''chris-kafkaesque-io-client'')"
  "ExtractTenant ''chris-kafkaesque-io-clien-12345qbc'' =
     (''chris-kafkaesque-io-clien'', ''chris-kafkaesque-io-clien'')"
  by (simp_all add: ExtractTenant_def hyphen_def Let_def)

text \<open>
  A subject that ends in a hyphen and a hyphen-free suffix: the base is what stands before
  that hyphen, and the root depends on the last token of the base.
\<close>

lemma ExtractTenant_snoc:
  assumes "CHR ''-'' \<notin> set sfx"
  shows "ExtractTenant (t @ CHR ''-'' # sfx) =
           (if last (Split t (CHR ''-'')) = ''client''
            then (t, Join (butlast (Split t (CHR ''-''))) (CHR ''-''))
            else (t, t))"
proof -
  have "Split (t @ CHR ''-'' # sfx) (CHR ''-'') = Split t (CHR ''-'') @ [sfx]"
    using assms by (rule Split_snoc_token)
  then show ?thesis
    by (simp add: ExtractTenant_def hyphen_def Let_def Join_Split)
qed

lemma ExtractTenant_client:
  assumes "CHR ''-'' \<notin> set sfx"
  shows "ExtractTenant (t @ ''-client-'' @ sfx) = (t @ ''-client'', t)"
proof -
  have "last (Split (t @ ''-client'') (CHR ''-'')) = ''client''"
    using Split_snoc_token [of "CHR ''-''" "''client''" t] by simp
  moreover have "butlast (Split (t @ ''-client'') (CHR ''-'')) = Split t (CHR ''-'')"
    using Split_snoc_token [of "CHR ''-''" "''client''" t] by simp
  ultimately show ?thesis
    using ExtractTenant_snoc [OF assms, of "t @ ''-client''"] by (simp add: Join_Split)
qed

text \<open>
  C1. \<^verbatim>\<open>VerifySubject(tenant, subject)\<close> is true exactly when the tenant equals the
  immediate or the root output of \<^verbatim>\<open>ExtractTenant(subject)\<close>; on the seven literal cases
  of \<^verbatim>\<open>TestSubjectMatch\<close> it gives the asserted answers.
\<close>

theorem VerifySubject_iff_either_tenant:
  "VerifySubject tenant subject =
     (tenant = fst (ExtractTenant subject) \<or> tenant = snd (ExtractTenant subject)) \<and>
   VerifySubject ''chris-kafkaesque-io'' ''chris-kafkaesque-io-12345qbc'' \<and>
   VerifySubject ''chris-kafkaesque-io'' ''chris-kafkaesque-io-client-12345qbc'' \<and>
   VerifySubject ''chris-kafkaesque-io-client'' ''chris-kafkaesque-io-client-client-12345qbc'' \<and>
   \<not> VerifySubject ''chris-kafkaesque-io'' ''chris-kafkaesque-io'' \<and>
   \<not> VerifySubject ''chris-kafkaesque-io'' ''chris-kafkaesque-io-client-client-12345qbc'' \<and>
   \<not> VerifySubject ''chris-kafkaesque-io-client''
        ''chris-kafkaesque-io-client-client-client-12345qbc'' \<and>
   \<not> VerifySubject ''chris-kafkaesque'' ''chris-kafkaesque-io-12345qbc''"
proof -
  have "VerifySubject tenant subject =
          (tenant = fst (ExtractTenant subject) \<or> tenant = snd (ExtractTenant subject))"
    by (simp add: VerifySubject_def split: prod.splits)
  moreover have
    "VerifySubject ''chris-kafkaesque-io'' ''chris-kafkaesque-io-12345qbc''"
    "VerifySubject ''chris-kafkaesque-io'' ''chris-kafkaesque-io-client-12345qbc''"
    "VerifySubject ''chris-kafkaesque-io-client'' ''chris-kafkaesque-io-client-client-12345qbc''"
    "\<not> VerifySubject ''chris-kafkaesque-io'' ''chris-kafkaesque-io''"
    "\<not> VerifySubject ''chris-kafkaesque-io'' ''chris-kafkaesque-io-client-client-12345qbc''"
    "\<not> VerifySubject ''chris-kafkaesque-io-client''
          ''chris-kafkaesque-io-client-client-client-12345qbc''"
    "\<not> VerifySubject ''chris-kafkaesque'' ''chris-kafkaesque-io-12345qbc''"
    by (simp_all add: VerifySubject_def ExtractTenant_def hyphen_def Let_def)
  ultimately show ?thesis by blast
qed

text \<open>
  C2. For every string \<open>t\<close>, ending in \<^verbatim>\<open>-client\<close> or not, and every non-empty hyphen-free
  suffix, \<^verbatim>\<open>ExtractTenant(t + "-client-" + suffix)\<close> is \<^verbatim>\<open>(t + "-client", t)\<close>: one random
  segment and one \<^verbatim>\<open>-client\<close> marker are stripped, no more, so that
  \<^verbatim>\<open>ExtractTenant(t + "-client-client-" + suffix)\<close> is
  \<^verbatim>\<open>(t + "-client-client", t + "-client")\<close>.
\<close>

theorem ExtractTenant_client_marker:
  assumes "sfx \<noteq> []" and "CHR ''-'' \<notin> set sfx"
  shows "ExtractTenant (t @ ''-client-'' @ sfx) = (t @ ''-client'', t) \<and>
         ExtractTenant (t @ ''-client-client-'' @ sfx) =
           (t @ ''-client-client'', t @ ''-client'')"
  using ExtractTenant_client [OF assms(2), of t]
    ExtractTenant_client [OF assms(2), of "t @ ''-client''"]
  by simp

theorem ExtractTenant_client_marker_witness:
  "''12345qbc'' \<noteq> [] \<and> CHR ''-'' \<notin> set ''12345qbc'' \<and>
   ExtractTenant ''chris-kafkaesque-io-client-12345qbc'' =
     (''chris-kafkaesque-io-client'', ''chris-kafkaesque-io'') \<and>
   ExtractTenant ''chris-kafkaesque-io-client-client-12345qbc'' =
     (''chris-kafkaesque-io-client-client'', ''chris-kafkaesque-io-client'')"
proof -
  have h1: "''12345qbc'' \<noteq> []" by simp
  have h2: "CHR ''-'' \<notin> set ''12345qbc''" by simp
  show ?thesis
    using h1 h2 ExtractTenant_client_marker [OF h1 h2, of "''chris-kafkaesque-io''"]
    by simp
qed

text \<open>
  C4. For every subject with no hyphen, \<^verbatim>\<open>ExtractTenant\<close> returns the subject twice: a
  bare account name is never stripped.
\<close>

theorem ExtractTenant_hyphen_free:
  "CHR ''-'' \<notin> set s \<Longrightarrow> ExtractTenant s = (s, s)"
  by (simp add: ExtractTenant_def hyphen_def)

theorem ExtractTenant_hyphen_free_witness:
  "CHR ''-'' \<notin> set ''adminuser'' \<and> ExtractTenant ''adminuser'' = (''adminuser'', ''adminuser'')"
proof -
  have h: "CHR ''-'' \<notin> set ''adminuser''" by simp
  show ?thesis using h ExtractTenant_hyphen_free [OF h] by simp
qed

subsection \<open>The last token of the base\<close>

text \<open>
  In a subject with a hyphen the base has at least one token, so that the comparison of
  its last token with \<^verbatim>\<open>client\<close> is defined.
\<close>

lemma base_tokens_not_Nil: "c \<in> set s \<Longrightarrow> butlast (Split s c) \<noteq> []"
proof -
  assume "c \<in> set s"
  then obtain a b where "s = a @ c # b"
    by (meson split_list)
  then have "Split s c = Split a c @ Split b c"
    by (simp add: Split_append_sep)
  then show ?thesis
    using Split_not_Nil [of a c] Split_not_Nil [of b c]
    by (cases "Split b c" rule: rev_cases) (simp_all add: butlast_append)
qed

text \<open>
  The last token of a string is a given hyphen-free word exactly when the string is that
  word or ends in a hyphen followed by it.
\<close>

lemma last_Split_iff:
  assumes "c \<notin> set w"
  shows "last (Split t c) = w \<longleftrightarrow> t = w \<or> suffix (c # w) t"
proof
  assume l: "last (Split t c) = w"
  have "Split t c \<noteq> []" by (rule Split_not_Nil)
  then have sp: "Split t c = butlast (Split t c) @ [w]"
    using l by (metis append_butlast_last_id)
  show "t = w \<or> suffix (c # w) t"
  proof (cases "butlast (Split t c) = []")
    case True
    with sp have "Split t c = [w]" by simp
    then have "t = w" using Join_Split [of t c] by simp
    then show ?thesis ..
  next
    case False
    have "t = Join (butlast (Split t c) @ [w]) c"
      using Join_Split [of t c] sp by simp
    also have "\<dots> = Join (butlast (Split t c)) c @ c # w"
      using False by (simp add: Join_append)
    finally show ?thesis by (metis suffixI)
  qed
next
  assume "t = w \<or> suffix (c # w) t"
  then show "last (Split t c) = w"
  proof
    assume "t = w"
    with assms show ?thesis by (simp add: Split_no_sep)
  next
    assume "suffix (c # w) t"
    then obtain p where "t = p @ c # w" by (auto simp: suffix_def)
    with assms show ?thesis by (simp add: Split_snoc_token)
  qed
qed

text \<open>
  When the part before the final hyphen is neither \<^verbatim>\<open>client\<close> itself nor ends in
  \<^verbatim>\<open>-client\<close>, both outputs are that part; a last token \<^verbatim>\<open>clien\<close> is not stripped.
\<close>

lemma ExtractTenant_plain:
  assumes "CHR ''-'' \<notin> set sfx" and "t \<noteq> ''client''" and "\<not> suffix ''-client'' t"
  shows "ExtractTenant (t @ CHR ''-'' # sfx) = (t, t)"
proof -
  have "last (Split t (CHR ''-'')) \<noteq> ''client''"
    using assms(2,3) last_Split_iff [of "CHR ''-''" "''client''" t] by simp
  then show ?thesis using ExtractTenant_snoc [OF assms(1), of t] by simp
qed

lemma ExtractTenant_clien:
  assumes "CHR ''-'' \<notin> set sfx"
  shows "ExtractTenant (t @ ''-clien-'' @ sfx) = (t @ ''-clien'', t @ ''-clien'')"
proof -
  have "last (Split (t @ ''-clien'') (CHR ''-'')) = ''clien''"
    using Split_snoc_token [of "CHR ''-''" "''clien''" t] by simp
  then show ?thesis
    using ExtractTenant_snoc [OF assms, of "t @ ''-clien''"] by simp
qed

text \<open>
  The base \<^verbatim>\<open>client\<close>, a single token, is the one place where dropping the last token
  and removing a trailing \<^verbatim>\<open>-client\<close> differ: the algorithm, read by tokens as above,
  leaves the empty root.
\<close>

lemma ExtractTenant_bare_client: "ExtractTenant ''client-x'' = (''client'', [])"
  by (simp add: ExtractTenant_def hyphen_def Let_def)

text \<open>
  The shape of the two outputs for every subject: the immediate tenant is a prefix of the
  subject, the root tenant is a prefix of the immediate tenant, and the root is the
  immediate tenant, or the immediate tenant is the root followed by \<^verbatim>\<open>-client\<close>, or the
  immediate tenant is the bare \<^verbatim>\<open>client\<close> and the root is empty.
\<close>

lemma ExtractTenant_forms:
  "prefix (fst (ExtractTenant s)) s \<and>
   prefix (snd (ExtractTenant s)) (fst (ExtractTenant s)) \<and>
   (snd (ExtractTenant s) = fst (ExtractTenant s) \<or>
    fst (ExtractTenant s) = snd (ExtractTenant s) @ ''-client'' \<or>
    (fst (ExtractTenant s) = ''client'' \<and> snd (ExtractTenant s) = []))"
proof (cases "CHR ''-'' \<in> set s")
  case False
  then show ?thesis by (simp add: ExtractTenant_def hyphen_def)
next
  case True
  then obtain a b where s: "s = a @ CHR ''-'' # b" and b: "CHR ''-'' \<notin> set b"
    by (meson split_list_last)
  show ?thesis
  proof (cases "last (Split a (CHR ''-'')) = ''client''")
    case False
    then show ?thesis using ExtractTenant_snoc [OF b, of a] s by simp
  next
    case c: True
    have "Split a (CHR ''-'') \<noteq> []" by (rule Split_not_Nil)
    then have sp: "Split a (CHR ''-'') = butlast (Split a (CHR ''-'')) @ [''client'']"
      using c by (metis append_butlast_last_id)
    have et: "ExtractTenant s = (a, Join (butlast (Split a (CHR ''-''))) (CHR ''-''))"
      using ExtractTenant_snoc [OF b, of a] s c by simp
    show ?thesis
    proof (cases "butlast (Split a (CHR ''-'')) = []")
      case True
      with sp have "Split a (CHR ''-'') = [''client'']" by simp
      then have "a = ''client''" using Join_Split [of a "CHR ''-''"] by simp
      then show ?thesis using et True s by simp
    next
      case False
      have "a = Join (butlast (Split a (CHR ''-'')) @ [''client'']) (CHR ''-'')"
        using Join_Split [of a "CHR ''-''"] sp by simp
      also have "\<dots> = Join (butlast (Split a (CHR ''-''))) (CHR ''-'') @ ''-client''"
        using False by (simp add: Join_append)
      finally have "a = Join (butlast (Split a (CHR ''-''))) (CHR ''-'') @ ''-client''" .
      then show ?thesis using et s by (metis fst_conv snd_conv prefixI append.assoc)
    qed
  qed
qed

end
